theory Spec2Isabelle
  imports Main "HOL-Library.Word"
begin

section \<open>The launcher of the timeline editor (TimelineEditor/qt/main.cpp)\<close>

text \<open>
  The repository's only source file is the entry point \<^verbatim>\<open>main\<close>. It is straight-line
  code over the Qt framework: it sets one application attribute, installs one logging
  filter rule, constructs the application object, initialises the web engine, constructs
  a QML engine, asks it to load one URL, and then either returns \<^verbatim>\<open>-1\<close> (no root
  object) or runs the event loop and returns its result.

  The framework is not part of the repository. The model therefore records every call
  \<^verbatim>\<open>main\<close> makes into the framework, in program order, and takes the two answers of the
  framework that \<^verbatim>\<open>main\<close> reads (the root objects an engine holds after the load, and
  what the event loop returns) as parameters.
\<close>

subsection \<open>Data\<close>

text \<open>The C++ type \<^verbatim>\<open>int\<close> (of \<^verbatim>\<open>argc\<close>, of the exit status, of \<^verbatim>\<open>app.exec()\<close>).\<close>

type_synonym c_int = "32 word"

text \<open>A \<^verbatim>\<open>QObject *\<close> held by the engine, as an opaque handle.\<close>

type_synonym qobject = nat

text \<open>
  Values of the enumeration \<^verbatim>\<open>Qt::ApplicationAttribute\<close>. The source names only
  \<^verbatim>\<open>AA_EnableHighDpiScaling\<close>; two neighbouring values of the framework's enumeration
  are listed so that the attribute is not the only value of its type.
\<close>

datatype application_attribute =
    AA_EnableHighDpiScaling
  | AA_DisableHighDpiScaling
  | AA_UseHighDpiPixmaps

text \<open>
  The calls of \<^verbatim>\<open>main\<close> into the framework, one constructor for each call the source
  can make, with the arguments the source passes. The two destructor calls are the ones
  C++ inserts for the automatic objects \<^verbatim>\<open>engine\<close> and \<^verbatim>\<open>app\<close> when \<^verbatim>\<open>main\<close> is left.
  The temporaries of the source (the \<^verbatim>\<open>QString\<close> and \<^verbatim>\<open>QUrl\<close> of the load request, the
  \<^verbatim>\<open>QList\<close> of root objects) are plain values: a URL is its text, the root objects are
  a list. \<^verbatim>\<open>argv\<close> is the array of argument strings, \<^verbatim>\<open>argc\<close> the integer beside it.
\<close>

datatype call =
    QCoreApplication_setAttribute application_attribute
  | QLoggingCategory_setFilterRules string
  | QGuiApplication_ctor c_int "string list"
  | QtWebEngine_initialize
  | QQmlApplicationEngine_ctor
  | QQmlApplicationEngine_load string
  | QQmlApplicationEngine_rootObjects
  | QGuiApplication_exec
  | QQmlApplicationEngine_dtor
  | QGuiApplication_dtor

text \<open>
  The framework's answers. Each may depend on everything \<^verbatim>\<open>main\<close> has done so far (the
  calls made up to and including the one answered), so the application object's view of
  the command line may influence them.
  \<^item> \<open>load_creates\<close>: the root objects that the load request instantiates (none when the
    resource is missing or does not parse);
  \<^item> \<open>exec_returns\<close>: the value \<^verbatim>\<open>app.exec()\<close> returns, or \<open>None\<close> when the event loop
    never hands control back to \<^verbatim>\<open>main\<close>.
\<close>

record framework =
  load_creates :: "call list \<Rightarrow> qobject list"
  exec_returns :: "call list \<Rightarrow> c_int option"

text \<open>
  What one execution of \<^verbatim>\<open>main\<close> does:
  \<^item> \<open>calls\<close>: the calls made by the statements of \<^verbatim>\<open>main\<close>, in order, up to and
    including the evaluation of the operand of the \<^verbatim>\<open>return\<close> statement that is reached;
  \<^item> \<open>root_objects\<close>: the collection \<^verbatim>\<open>engine.rootObjects()\<close> returned at the check;
  \<^item> \<open>at_exit\<close>: the destructors of the automatic objects, which the \<^verbatim>\<open>return\<close> statement
    runs after its operand is evaluated, in reverse order of construction;
  \<^item> \<open>exit_status\<close>: the value \<^verbatim>\<open>main\<close> returns, or \<open>None\<close> when it never returns.
\<close>

record outcome =
  calls :: "call list"
  root_objects :: "qobject list"
  at_exit :: "call list"
  exit_status :: "c_int option"

subsection \<open>The program\<close>

text \<open>\<^verbatim>\<open>QList::isEmpty()\<close>.\<close>

definition isEmpty :: "'a list \<Rightarrow> bool" where
  "isEmpty xs = (xs = [])"

text \<open>
  A \<^verbatim>\<open>return\<close> statement of \<^verbatim>\<open>main\<close> whose operand has the value \<open>v\<close>, reached after the
  calls \<open>h\<close>: \<^verbatim>\<open>engine\<close> and then \<^verbatim>\<open>app\<close> are destroyed, and \<open>v\<close> is the exit status.
\<close>

definition return_from_main :: "call list \<Rightarrow> qobject list \<Rightarrow> c_int \<Rightarrow> outcome" where
  "return_from_main h roots v =
     \<lparr>calls = h, root_objects = roots,
      at_exit = [QQmlApplicationEngine_dtor, QGuiApplication_dtor],
      exit_status = Some v\<rparr>"

text \<open>
  \<^verbatim>\<open>int main(int argc, char *argv[])\<close>, statement by statement. \<open>h\<close> is the list of calls
  made so far; \<open>engine\<close> is the root-object list of the local \<^verbatim>\<open>QQmlApplicationEngine\<close>,
  empty when constructed and extended by the load.
\<close>

definition main :: "framework \<Rightarrow> c_int \<Rightarrow> string list \<Rightarrow> outcome" where
  "main fw argc argv =
    (let h = [QCoreApplication_setAttribute AA_EnableHighDpiScaling];
         h = h @ [QLoggingCategory_setFilterRules ''qt.webengine*=true''];
         h = h @ [QGuiApplication_ctor argc argv];
         h = h @ [QtWebEngine_initialize];
         h = h @ [QQmlApplicationEngine_ctor];
         engine = [];
         h = h @ [QQmlApplicationEngine_load ''qrc:/main.qml''];
         engine = engine @ load_creates fw h;
         h = h @ [QQmlApplicationEngine_rootObjects];
         roots = engine
     in if isEmpty roots then return_from_main h roots (- 1)
        else
          (let h = h @ [QGuiApplication_exec]
           in case exec_returns fw h of
                None \<Rightarrow> \<lparr>calls = h, root_objects = roots, at_exit = [], exit_status = None\<rparr>
              | Some r \<Rightarrow> return_from_main h roots r))"

text \<open>Everything an execution calls, in order.\<close>

definition trace :: "outcome \<Rightarrow> call list" where
  "trace r = calls r @ at_exit r"

subsection \<open>Vocabulary for statements about executions\<close>

text \<open>The class (or namespace) of the framework that a call addresses, as the source names it.\<close>

datatype qt_class =
    QCoreApplication
  | QLoggingCategory
  | QGuiApplication
  | QtWebEngine
  | QQmlApplicationEngine

fun receiver :: "call \<Rightarrow> qt_class" where
  "receiver (QCoreApplication_setAttribute a) = QCoreApplication"
| "receiver (QLoggingCategory_setFilterRules r) = QLoggingCategory"
| "receiver (QGuiApplication_ctor n v) = QGuiApplication"
| "receiver QtWebEngine_initialize = QtWebEngine"
| "receiver QQmlApplicationEngine_ctor = QQmlApplicationEngine"
| "receiver (QQmlApplicationEngine_load u) = QQmlApplicationEngine"
| "receiver QQmlApplicationEngine_rootObjects = QQmlApplicationEngine"
| "receiver QGuiApplication_exec = QGuiApplication"
| "receiver QQmlApplicationEngine_dtor = QQmlApplicationEngine"
| "receiver QGuiApplication_dtor = QGuiApplication"

text \<open>The arguments of every construction of the application object in a list of calls.\<close>

fun app_constructions :: "call list \<Rightarrow> (c_int \<times> string list) list" where
  "app_constructions [] = []"
| "app_constructions (QGuiApplication_ctor n v # t) = (n, v) # app_constructions t"
| "app_constructions (c # t) = app_constructions t"

text \<open>The URLs of every load request in a list of calls.\<close>

fun load_requests :: "call list \<Rightarrow> string list" where
  "load_requests [] = []"
| "load_requests (QQmlApplicationEngine_load u # t) = u # load_requests t"
| "load_requests (c # t) = load_requests t"

text \<open>The rule strings of every installation of logging filter rules in a list of calls.\<close>

fun installed_rules :: "call list \<Rightarrow> string list" where
  "installed_rules [] = []"
| "installed_rules (QLoggingCategory_setFilterRules r # t) = r # installed_rules t"
| "installed_rules (c # t) = installed_rules t"

definition is_app_construction :: "call \<Rightarrow> bool" where
  "is_app_construction c = (app_constructions [c] \<noteq> [])"

definition is_load_request :: "call \<Rightarrow> bool" where
  "is_load_request c = (load_requests [c] \<noteq> [])"

text \<open>
  \<open>occurs_before P Q t\<close>: the list \<open>t\<close> has a \<open>Q\<close> call, and a \<open>P\<close> call stands strictly
  before the first \<open>Q\<close> call.
\<close>

definition occurs_before :: "(call \<Rightarrow> bool) \<Rightarrow> (call \<Rightarrow> bool) \<Rightarrow> call list \<Rightarrow> bool" where
  "occurs_before P Q t = (list_ex P (takeWhile (\<lambda>c. \<not> Q c) t) \<and> list_ex Q t)"

text \<open>The calls of an execution that come before the root-object check.\<close>

definition initialization :: "outcome \<Rightarrow> call list" where
  "initialization r = takeWhile (\<lambda>c. c \<noteq> QQmlApplicationEngine_rootObjects) (calls r)"

text \<open>The calls of an execution from the root-object check on.\<close>

definition from_check :: "call list \<Rightarrow> call list" where
  "from_check t = dropWhile (\<lambda>c. c \<noteq> QQmlApplicationEngine_rootObjects) t"

text \<open>A call with the command line taken out of it (only the construction carries it).\<close>

fun erase_args :: "call \<Rightarrow> call" where
  "erase_args (QGuiApplication_ctor n v) = QGuiApplication_ctor 0 []"
| "erase_args c = c"

text \<open>Whether an execution called the event loop.\<close>

definition entered_event_loop :: "outcome \<Rightarrow> bool" where
  "entered_event_loop r = (QGuiApplication_exec \<in> set (trace r))"

text \<open>
  A filter rule has the form \<^verbatim>\<open>category=value\<close>: the text before the first \<^verbatim>\<open>=\<close> is the
  category pattern, the text after it the value.
\<close>

definition rule_category :: "string \<Rightarrow> string" where
  "rule_category r = takeWhile (\<lambda>c. c \<noteq> CHR ''='') r"

definition rule_value :: "string \<Rightarrow> string" where
  "rule_value r = drop 1 (dropWhile (\<lambda>c. c \<noteq> CHR ''='') r)"

text \<open>The scheme of a URL: the text before the first colon.\<close>

definition url_scheme :: "string \<Rightarrow> string" where
  "url_scheme u = takeWhile (\<lambda>c. c \<noteq> CHR '':'') u"

text \<open>The six calls that the source makes before it asks for the root objects.\<close>

definition startup :: "c_int \<Rightarrow> string list \<Rightarrow> call list" where
  "startup argc argv =
     [QCoreApplication_setAttribute AA_EnableHighDpiScaling,
      QLoggingCategory_setFilterRules ''qt.webengine*=true'',
      QGuiApplication_ctor argc argv,
      QtWebEngine_initialize,
      QQmlApplicationEngine_ctor,
      QQmlApplicationEngine_load ''qrc:/main.qml'']"

subsection \<open>Concrete frameworks\<close>

text \<open>A framework in which the resource does not load, and the loop would return 0.\<close>

definition fw_missing :: framework where
  "fw_missing = \<lparr>load_creates = (\<lambda>h. []), exec_returns = (\<lambda>h. Some 0)\<rparr>"

text \<open>A framework in which the load creates one root object and the loop returns \<open>r\<close>.\<close>

definition fw_loaded :: "c_int option \<Rightarrow> framework" where
  "fw_loaded r = \<lparr>load_creates = (\<lambda>h. [0]), exec_returns = (\<lambda>h. r)\<rparr>"

text \<open>
  A framework that looks at the command line it was given: the load creates a root object
  only for the command line \<^verbatim>\<open>TimelineEditor\<close> (one argument).
\<close>

definition fw_by_args :: framework where
  "fw_by_args =
     \<lparr>load_creates = (\<lambda>h. if app_constructions h = [(1, [''TimelineEditor''])] then [0] else []),
      exec_returns = (\<lambda>h. Some 0)\<rparr>"

subsection \<open>The paths of main\<close>

lemma main_root_objects:
  "root_objects (main fw argc argv) = load_creates fw (startup argc argv)"
  by (simp add: main_def startup_def isEmpty_def return_from_main_def Let_def
      split: option.split)

lemma main_failure_path:
  assumes "isEmpty (root_objects (main fw argc argv))"
  shows "main fw argc argv =
     \<lparr>calls = startup argc argv @ [QQmlApplicationEngine_rootObjects],
      root_objects = [],
      at_exit = [QQmlApplicationEngine_dtor, QGuiApplication_dtor],
      exit_status = Some (- 1)\<rparr>"
proof -
  from assms have "load_creates fw (startup argc argv) = []"
    by (simp add: main_root_objects isEmpty_def)
  then show ?thesis
    by (simp add: main_def startup_def isEmpty_def return_from_main_def)
qed

lemma main_event_loop_path:
  assumes "\<not> isEmpty (root_objects (main fw argc argv))"
  shows "calls (main fw argc argv) =
           startup argc argv @ [QQmlApplicationEngine_rootObjects, QGuiApplication_exec]"
    and "exit_status (main fw argc argv) =
           exec_returns fw
             (startup argc argv @ [QQmlApplicationEngine_rootObjects, QGuiApplication_exec])"
    and "at_exit (main fw argc argv) =
           (case exit_status (main fw argc argv) of
              None \<Rightarrow> []
            | Some r \<Rightarrow> [QQmlApplicationEngine_dtor, QGuiApplication_dtor])"
proof -
  from assms have ne: "load_creates fw (startup argc argv) \<noteq> []"
    by (simp add: main_root_objects isEmpty_def)
  then have ne':
    "load_creates fw
       [QCoreApplication_setAttribute AA_EnableHighDpiScaling,
        QLoggingCategory_setFilterRules ''qt.webengine*=true'',
        QGuiApplication_ctor argc argv, QtWebEngine_initialize,
        QQmlApplicationEngine_ctor, QQmlApplicationEngine_load ''qrc:/main.qml''] \<noteq> []"
    by (simp add: startup_def)
  show "calls (main fw argc argv) =
           startup argc argv @ [QQmlApplicationEngine_rootObjects, QGuiApplication_exec]"
    using ne' by (simp add: main_def startup_def isEmpty_def return_from_main_def Let_def
        split: option.split)
  show "exit_status (main fw argc argv) =
           exec_returns fw
             (startup argc argv @ [QQmlApplicationEngine_rootObjects, QGuiApplication_exec])"
    using ne' by (simp add: main_def startup_def isEmpty_def return_from_main_def Let_def
        split: option.split)
  show "at_exit (main fw argc argv) =
           (case exit_status (main fw argc argv) of
              None \<Rightarrow> []
            | Some r \<Rightarrow> [QQmlApplicationEngine_dtor, QGuiApplication_dtor])"
    using ne' by (simp add: main_def startup_def isEmpty_def return_from_main_def Let_def
        split: option.split)
qed

text \<open>Every execution has one of three shapes.\<close>

lemma main_trace_cases:
  "trace (main fw argc argv) =
     startup argc argv @
       [QQmlApplicationEngine_rootObjects, QQmlApplicationEngine_dtor, QGuiApplication_dtor]
   \<or> trace (main fw argc argv) =
     startup argc argv @ [QQmlApplicationEngine_rootObjects, QGuiApplication_exec]
   \<or> trace (main fw argc argv) =
     startup argc argv @
       [QQmlApplicationEngine_rootObjects, QGuiApplication_exec,
        QQmlApplicationEngine_dtor, QGuiApplication_dtor]"
proof (cases "isEmpty (root_objects (main fw argc argv))")
  case True
  from main_failure_path [OF True] show ?thesis
    by (simp add: trace_def)
next
  case False
  note p = main_event_loop_path [OF False]
  show ?thesis
  proof (cases "exit_status (main fw argc argv)")
    case None
    with p(1) p(3) show ?thesis
      by (simp add: trace_def)
  next
    case (Some r)
    with p(1) p(3) show ?thesis
      by (simp add: trace_def)
  qed
qed

lemma main_calls_cases:
  "calls (main fw argc argv) = startup argc argv @ [QQmlApplicationEngine_rootObjects]
   \<or> calls (main fw argc argv) =
     startup argc argv @ [QQmlApplicationEngine_rootObjects, QGuiApplication_exec]"
proof (cases "isEmpty (root_objects (main fw argc argv))")
  case True
  from main_failure_path [OF True] show ?thesis
    by simp
next
  case False
  from main_event_loop_path(1) [OF False] show ?thesis
    by simp
qed

subsection \<open>The claims\<close>

text \<open>
  C1. In every execution in which the load leaves the engine without a root object,
  \<^verbatim>\<open>main\<close> returns the exit status \<^verbatim>\<open>-1\<close>, and the event loop is never entered: no
  call of \<^verbatim>\<open>app.exec()\<close> occurs anywhere in the execution.
\<close>

theorem main_no_roots_returns_minus_one:
  "isEmpty (root_objects (main fw argc argv)) \<Longrightarrow>
     exit_status (main fw argc argv) = Some (- 1) \<and>
     \<not> entered_event_loop (main fw argc argv)"
proof -
  assume "isEmpty (root_objects (main fw argc argv))"
  from main_failure_path [OF this] show ?thesis
    by (simp add: entered_event_loop_def trace_def startup_def)
qed

theorem main_no_roots_returns_minus_one_witness:
  "isEmpty (root_objects (main fw_missing 1 [''TimelineEditor''])) \<and>
   exit_status (main fw_missing 1 [''TimelineEditor'']) = Some (- 1) \<and>
   \<not> entered_event_loop (main fw_missing 1 [''TimelineEditor''])"
proof -
  have e: "isEmpty (root_objects (main fw_missing 1 [''TimelineEditor'']))"
    by (simp add: main_root_objects fw_missing_def isEmpty_def)
  from e main_no_roots_returns_minus_one [OF e] show ?thesis
    by simp
qed

text \<open>
  C2, as amended. In every execution in which the load leaves the engine with at least one
  root object, \<^verbatim>\<open>main\<close> enters the event loop (the call of \<^verbatim>\<open>app.exec()\<close> is its last
  statement-level call) and its exit status is exactly what the event loop returns; when
  the loop never returns, neither does \<^verbatim>\<open>main\<close>. The status is \<^verbatim>\<open>-1\<close> exactly when the
  event loop itself returned \<^verbatim>\<open>-1\<close>.
\<close>

theorem main_roots_returns_exec_result:
  "\<not> isEmpty (root_objects (main fw argc argv)) \<Longrightarrow>
     entered_event_loop (main fw argc argv) \<and>
     last (calls (main fw argc argv)) = QGuiApplication_exec \<and>
     exit_status (main fw argc argv) = exec_returns fw (calls (main fw argc argv)) \<and>
     (exit_status (main fw argc argv) = Some (- 1)) =
       (exec_returns fw (calls (main fw argc argv)) = Some (- 1))"
proof -
  assume "\<not> isEmpty (root_objects (main fw argc argv))"
  note p = main_event_loop_path [OF this]
  have "entered_event_loop (main fw argc argv)"
    using p(1) by (simp add: entered_event_loop_def trace_def)
  moreover have "last (calls (main fw argc argv)) = QGuiApplication_exec"
    using p(1) by simp
  moreover have "exit_status (main fw argc argv) = exec_returns fw (calls (main fw argc argv))"
    using p(1) p(2) by simp
  ultimately show ?thesis
    by simp
qed

theorem main_roots_returns_exec_result_witness:
  "\<not> isEmpty (root_objects (main (fw_loaded (Some 0)) 1 [''TimelineEditor''])) \<and>
   entered_event_loop (main (fw_loaded (Some 0)) 1 [''TimelineEditor'']) \<and>
   last (calls (main (fw_loaded (Some 0)) 1 [''TimelineEditor''])) = QGuiApplication_exec \<and>
   exit_status (main (fw_loaded (Some 0)) 1 [''TimelineEditor'']) = Some 0"
proof -
  have ne: "\<not> isEmpty (root_objects (main (fw_loaded (Some 0)) 1 [''TimelineEditor'']))"
    by (simp add: main_root_objects fw_loaded_def isEmpty_def)
  from ne main_roots_returns_exec_result [OF ne] show ?thesis
    by (simp add: fw_loaded_def)
qed

text \<open>
  C2 as stated fails: the load creates a root object, the event loop is entered and
  returns \<^verbatim>\<open>-1\<close>, and the exit status of \<^verbatim>\<open>main\<close> on this branch is \<^verbatim>\<open>-1\<close>.
\<close>

theorem main_roots_exit_minus_one_counterexample:
  "\<not> isEmpty (root_objects (main (fw_loaded (Some (- 1))) 1 [''TimelineEditor''])) \<and>
   entered_event_loop (main (fw_loaded (Some (- 1))) 1 [''TimelineEditor'']) \<and>
   exit_status (main (fw_loaded (Some (- 1))) 1 [''TimelineEditor'']) = Some (- 1)"
  by (simp add: main_def fw_loaded_def isEmpty_def return_from_main_def
      entered_event_loop_def trace_def)

text \<open>
  C3. In every execution, the call that sets the attribute \<^verbatim>\<open>AA_EnableHighDpiScaling\<close>
  stands strictly before the first construction of the application object, and the
  application object is constructed.
\<close>

theorem main_attribute_before_app_construction:
  "occurs_before (\<lambda>c. c = QCoreApplication_setAttribute AA_EnableHighDpiScaling)
     is_app_construction (trace (main fw argc argv))"
  using main_trace_cases [of fw argc argv]
  by (auto simp add: occurs_before_def startup_def is_app_construction_def)

text \<open>
  C4. In every execution, the call that installs the logging filter rule for the
  web-engine categories stands strictly before the first initialisation of the web
  engine, and the web engine is initialised.
\<close>

theorem main_filter_rules_before_webengine:
  "occurs_before (\<lambda>c. c = QLoggingCategory_setFilterRules ''qt.webengine*=true'')
     (\<lambda>c. c = QtWebEngine_initialize) (trace (main fw argc argv))"
  using main_trace_cases [of fw argc argv]
  by (auto simp add: occurs_before_def startup_def)

text \<open>
  C5. In every execution, the web engine is initialised strictly after the application
  object has been constructed (a construction stands before the first initialisation)
  and strictly before the engine is asked to load (the initialisation stands before the
  first load request).
\<close>

theorem main_webengine_between_app_and_load:
  "occurs_before is_app_construction (\<lambda>c. c = QtWebEngine_initialize)
     (trace (main fw argc argv)) \<and>
   occurs_before (\<lambda>c. c = QtWebEngine_initialize) is_load_request
     (trace (main fw argc argv))"
  using main_trace_cases [of fw argc argv]
  by (auto simp add: occurs_before_def startup_def is_app_construction_def
      is_load_request_def)

text \<open>
  C6. In every execution, whatever the framework answers and whatever the command line
  is, the engine is asked to load exactly once, and the URL is the constant
  \<^verbatim>\<open>qrc:/main.qml\<close>; its scheme is \<^verbatim>\<open>qrc\<close> (a path into the bundled resources), not
  \<^verbatim>\<open>file\<close>.
\<close>

theorem main_loads_fixed_resource:
  "load_requests (trace (main fw argc argv)) = [''qrc:/main.qml''] \<and>
   map url_scheme (load_requests (trace (main fw argc argv))) = [''qrc'']"
  using main_trace_cases [of fw argc argv]
  by (auto simp add: startup_def url_scheme_def)


text \<open>
  C8. In every execution, the only call addressed to the logging configuration is one
  installation of the rule string \<^verbatim>\<open>qt.webengine*=true\<close>: the category pattern of the
  rule is \<^verbatim>\<open>qt.webengine*\<close> and its value is \<^verbatim>\<open>true\<close>. No later call of the execution
  replaces or removes it.
\<close>

theorem main_installs_webengine_logging_rule_once:
  "filter (\<lambda>c. receiver c = QLoggingCategory) (trace (main fw argc argv)) =
     [QLoggingCategory_setFilterRules ''qt.webengine*=true''] \<and>
   map rule_category (installed_rules (trace (main fw argc argv))) = [''qt.webengine*''] \<and>
   map rule_value (installed_rules (trace (main fw argc argv))) = [''true'']"
  using main_trace_cases [of fw argc argv]
  by (auto simp add: startup_def rule_category_def rule_value_def)

text \<open>
  C9, as amended. In every execution in which the engine has no root object at the check,
  the exit status is \<^verbatim>\<open>-1\<close>, and from the check until \<^verbatim>\<open>main\<close> has returned the only
  further effects are the destruction of the automatic objects \<^verbatim>\<open>engine\<close> and then
  \<^verbatim>\<open>app\<close>, which the \<^verbatim>\<open>return\<close> statement performs: no statement stands between the
  check and \<^verbatim>\<open>return -1\<close>, and no call from the check on is addressed to the web engine
  or to the logging configuration.
\<close>

theorem main_failure_path_no_cleanup:
  "isEmpty (root_objects (main fw argc argv)) \<Longrightarrow>
     from_check (trace (main fw argc argv)) =
       [QQmlApplicationEngine_rootObjects, QQmlApplicationEngine_dtor, QGuiApplication_dtor] \<and>
     from_check (calls (main fw argc argv)) = [QQmlApplicationEngine_rootObjects] \<and>
     exit_status (main fw argc argv) = Some (- 1) \<and>
     at_exit (main fw argc argv) = [QQmlApplicationEngine_dtor, QGuiApplication_dtor] \<and>
     filter (\<lambda>c. receiver c = QtWebEngine \<or> receiver c = QLoggingCategory)
       (from_check (trace (main fw argc argv))) = []"
proof -
  assume "isEmpty (root_objects (main fw argc argv))"
  from main_failure_path [OF this] show ?thesis
    by (simp add: from_check_def trace_def startup_def)
qed

theorem main_failure_path_no_cleanup_witness:
  "isEmpty (root_objects (main fw_missing 2 [''TimelineEditor'', ''demo.json''])) \<and>
   from_check (trace (main fw_missing 2 [''TimelineEditor'', ''demo.json''])) =
     [QQmlApplicationEngine_rootObjects, QQmlApplicationEngine_dtor, QGuiApplication_dtor] \<and>
   from_check (calls (main fw_missing 2 [''TimelineEditor'', ''demo.json''])) =
     [QQmlApplicationEngine_rootObjects] \<and>
   exit_status (main fw_missing 2 [''TimelineEditor'', ''demo.json'']) = Some (- 1) \<and>
   at_exit (main fw_missing 2 [''TimelineEditor'', ''demo.json'']) =
     [QQmlApplicationEngine_dtor, QGuiApplication_dtor]"
proof -
  have e: "isEmpty (root_objects (main fw_missing 2 [''TimelineEditor'', ''demo.json'']))"
    by (simp add: main_root_objects fw_missing_def isEmpty_def)
  from e main_failure_path_no_cleanup [OF e] show ?thesis
    by simp
qed

text \<open>
  C9 as stated fails: the engine has no root object, \<^verbatim>\<open>main\<close> returns \<^verbatim>\<open>-1\<close>, and between
  the check and the return two further calls are made, the destructors of \<^verbatim>\<open>engine\<close> and
  of \<^verbatim>\<open>app\<close>.
\<close>

theorem main_failure_path_destructors_counterexample:
  "isEmpty (root_objects (main fw_missing 1 [''TimelineEditor''])) \<and>
   exit_status (main fw_missing 1 [''TimelineEditor'']) = Some (- 1) \<and>
   from_check (trace (main fw_missing 1 [''TimelineEditor''])) =
     [QQmlApplicationEngine_rootObjects, QQmlApplicationEngine_dtor, QGuiApplication_dtor] \<and>
   from_check (trace (main fw_missing 1 [''TimelineEditor''])) \<noteq>
     [QQmlApplicationEngine_rootObjects]"
  by (simp add: main_def fw_missing_def isEmpty_def return_from_main_def
      from_check_def trace_def)

text \<open>
  C10. For any two executions, whatever their command lines (and whatever their
  frameworks answer), the calls made before the root-object check are the same six calls
  in the same order: attribute setting, installation of the filter rule, construction of
  the application object, initialisation of the web engine, construction of the engine,
  load request. They differ at most in the command line handed to the construction.
  The check follows them in every execution, and the collection it returns is what the
  framework created for the load. What \<^verbatim>\<open>main\<close> does from there is decided by the
  emptiness of that collection alone: when it is empty the check is the last
  statement-level call and the exit status is \<^verbatim>\<open>-1\<close>; otherwise the event loop is called
  next and the exit status is what the loop returns. The command line appears in neither
  case. So two executions that agree on the emptiness take the same branch and make the
  same calls up to the command line handed to the construction.
\<close>

theorem main_initialization_independent_of_arguments:
  "initialization (main fw argc argv) =
     [QCoreApplication_setAttribute AA_EnableHighDpiScaling,
      QLoggingCategory_setFilterRules ''qt.webengine*=true'',
      QGuiApplication_ctor argc argv,
      QtWebEngine_initialize,
      QQmlApplicationEngine_ctor,
      QQmlApplicationEngine_load ''qrc:/main.qml''] \<and>
   map erase_args (initialization (main fw argc argv)) =
     map erase_args (initialization (main fw' argc' argv')) \<and>
   root_objects (main fw argc argv) = load_creates fw (initialization (main fw argc argv)) \<and>
   calls (main fw argc argv) =
     initialization (main fw argc argv) @
       (if isEmpty (root_objects (main fw argc argv))
        then [QQmlApplicationEngine_rootObjects]
        else [QQmlApplicationEngine_rootObjects, QGuiApplication_exec]) \<and>
   exit_status (main fw argc argv) =
     (if isEmpty (root_objects (main fw argc argv)) then Some (- 1)
      else exec_returns fw (calls (main fw argc argv))) \<and>
   at_exit (main fw argc argv) =
     (if exit_status (main fw argc argv) = None then []
      else [QQmlApplicationEngine_dtor, QGuiApplication_dtor]) \<and>
   entered_event_loop (main fw argc argv) = (\<not> isEmpty (root_objects (main fw argc argv))) \<and>
   (isEmpty (root_objects (main fw argc argv)) = isEmpty (root_objects (main fw' argc' argv'))
      \<longrightarrow> entered_event_loop (main fw argc argv) = entered_event_loop (main fw' argc' argv') \<and>
          map erase_args (calls (main fw argc argv)) =
            map erase_args (calls (main fw' argc' argv')))"
proof -
  have init: "initialization (main f n v) = startup n v" for f n v
    using main_calls_cases [of f n v]
    by (auto simp add: initialization_def startup_def)
  have shape:
    "calls (main f n v) =
       startup n v @
         (if isEmpty (root_objects (main f n v))
          then [QQmlApplicationEngine_rootObjects]
          else [QQmlApplicationEngine_rootObjects, QGuiApplication_exec]) \<and>
     exit_status (main f n v) =
       (if isEmpty (root_objects (main f n v)) then Some (- 1)
        else exec_returns f (calls (main f n v))) \<and>
     at_exit (main f n v) =
       (if exit_status (main f n v) = None then []
        else [QQmlApplicationEngine_dtor, QGuiApplication_dtor])" for f n v
  proof (cases "isEmpty (root_objects (main f n v))")
    case True
    from True main_failure_path [OF True] show ?thesis
      by simp
  next
    case False
    note p = main_event_loop_path [OF False]
    have "at_exit (main f n v) =
       (if exit_status (main f n v) = None then []
        else [QQmlApplicationEngine_dtor, QGuiApplication_dtor])"
      using p(3) by (cases "exit_status (main f n v)") simp_all
    with False p(1) p(2) show ?thesis
      by simp
  qed
  have branch: "entered_event_loop (main f n v) = (\<not> isEmpty (root_objects (main f n v)))"
    for f n v
  proof (cases "isEmpty (root_objects (main f n v))")
    case True
    from main_failure_path [OF True] show ?thesis
      by (simp add: entered_event_loop_def trace_def startup_def isEmpty_def)
  next
    case False
    from False main_event_loop_path(1) [OF False] show ?thesis
      by (simp add: entered_event_loop_def trace_def)
  qed
  have roots: "root_objects (main fw argc argv) = load_creates fw (startup argc argv)"
    by (rule main_root_objects)
  have same:
    "map erase_args (calls (main fw argc argv)) = map erase_args (calls (main fw' argc' argv'))"
    if "isEmpty (root_objects (main fw argc argv)) = isEmpty (root_objects (main fw' argc' argv'))"
  proof -
    have "map erase_args (startup argc argv) = map erase_args (startup argc' argv')"
      by (simp add: startup_def)
    with that shape [of fw argc argv] shape [of fw' argc' argv'] show ?thesis
      by simp
  qed
  have six: "startup argc argv =
     [QCoreApplication_setAttribute AA_EnableHighDpiScaling,
      QLoggingCategory_setFilterRules ''qt.webengine*=true'',
      QGuiApplication_ctor argc argv,
      QtWebEngine_initialize,
      QQmlApplicationEngine_ctor,
      QQmlApplicationEngine_load ''qrc:/main.qml'']"
    by (simp add: startup_def)
  have erased: "map erase_args (startup argc argv) = map erase_args (startup argc' argv')"
    by (simp add: startup_def)
  from six erased roots shape [of fw argc argv] branch same show ?thesis
    unfolding init by blast
qed

theorem main_initialization_independent_of_arguments_witness:
  "(isEmpty (root_objects (main fw_by_args 1 [''TimelineEditor''])) =
      isEmpty (root_objects (main (fw_loaded (Some 0)) 2 [''TimelineEditor'', ''demo.json'']))) \<and>
   entered_event_loop (main fw_by_args 1 [''TimelineEditor'']) =
     entered_event_loop (main (fw_loaded (Some 0)) 2 [''TimelineEditor'', ''demo.json'']) \<and>
   map erase_args (calls (main fw_by_args 1 [''TimelineEditor''])) =
     map erase_args (calls (main (fw_loaded (Some 0)) 2 [''TimelineEditor'', ''demo.json''])) \<and>
   exit_status (main fw_by_args 1 [''TimelineEditor'']) = Some 0 \<and>
   (isEmpty (root_objects (main fw_missing 1 [''TimelineEditor''])) =
      isEmpty (root_objects (main fw_by_args 2 [''TimelineEditor'', ''demo.json'']))) \<and>
   entered_event_loop (main fw_missing 1 [''TimelineEditor'']) =
     entered_event_loop (main fw_by_args 2 [''TimelineEditor'', ''demo.json'']) \<and>
   map erase_args (calls (main fw_missing 1 [''TimelineEditor''])) =
     map erase_args (calls (main fw_by_args 2 [''TimelineEditor'', ''demo.json''])) \<and>
   exit_status (main fw_missing 1 [''TimelineEditor'']) = Some (- 1)"
proof -
  have ne1: "\<not> isEmpty (root_objects (main fw_by_args 1 [''TimelineEditor'']))"
    by (simp add: main_root_objects fw_by_args_def isEmpty_def startup_def)
  have ne2: "\<not> isEmpty
      (root_objects (main (fw_loaded (Some 0)) 2 [''TimelineEditor'', ''demo.json'']))"
    by (simp add: main_root_objects fw_loaded_def isEmpty_def)
  have e1: "isEmpty (root_objects (main fw_missing 1 [''TimelineEditor'']))"
    by (simp add: main_root_objects fw_missing_def isEmpty_def)
  have e2: "isEmpty (root_objects (main fw_by_args 2 [''TimelineEditor'', ''demo.json'']))"
    by (simp add: main_root_objects fw_by_args_def isEmpty_def startup_def)
  note loaded = main_initialization_independent_of_arguments
    [of fw_by_args 1 "[''TimelineEditor'']" "fw_loaded (Some 0)" 2
      "[''TimelineEditor'', ''demo.json'']"]
  note missing = main_initialization_independent_of_arguments
    [of fw_missing 1 "[''TimelineEditor'']" fw_by_args 2
      "[''TimelineEditor'', ''demo.json'']"]
  have s1: "exit_status (main fw_by_args 1 [''TimelineEditor'']) = Some 0"
    using loaded ne1 by (simp add: fw_by_args_def)
  have s2: "exit_status (main fw_missing 1 [''TimelineEditor'']) = Some (- 1)"
    using missing e1 by simp
  from ne1 ne2 e1 e2 s1 s2 loaded missing show ?thesis
    by blast
qed

subsection \<open>Two observations on the model\<close>

text \<open>
  The framework may let the command line decide what the load creates, so the branch can
  depend on the command line through the root-object collection: with \<open>fw_by_args\<close> one
  command line reaches the event loop and another returns \<^verbatim>\<open>-1\<close>.
\<close>

lemma branch_depends_on_arguments_through_framework:
  "entered_event_loop (main fw_by_args 1 [''TimelineEditor'']) \<and>
   \<not> entered_event_loop (main fw_by_args 2 [''TimelineEditor'', ''demo.json'']) \<and>
   exit_status (main fw_by_args 2 [''TimelineEditor'', ''demo.json'']) = Some (- 1)"
  by (simp add: main_def fw_by_args_def isEmpty_def return_from_main_def
      entered_event_loop_def trace_def)

text \<open>
  When the event loop never hands control back, \<^verbatim>\<open>main\<close> does not return and nothing is
  destroyed.
\<close>

lemma event_loop_never_returns:
  "exit_status (main (fw_loaded None) 1 [''TimelineEditor'']) = None \<and>
   at_exit (main (fw_loaded None) 1 [''TimelineEditor'']) = []"
  by (simp add: main_def fw_loaded_def isEmpty_def return_from_main_def)

end
